theory Spec2Isabelle
  imports Main "HOL-Library.AList" "HOL-Library.Multiset" "HOL-Library.Sublist"
begin

section \<open>MCP server scanner: data model\<close>

text \<open>
  Embedding of \<^verbatim>\<open>scripts/python/scan_mcp_servers.py\<close> (class
  \<^verbatim>\<open>MCPSecurityScanner\<close>) and of the exit logic of
  \<^verbatim>\<open>scripts/python/scan_claude_skills.py\<close>.

  An exception is modelled by its message, the text \<^verbatim>\<open>str(e)\<close> that the handlers
  store; a computation that may raise returns \<open>exn + 'a\<close>, with \<open>Inl\<close> the exception.
  Printing to the console is not modelled.
\<close>

type_synonym exn = string

text \<open>
  The objects the external \<^verbatim>\<open>mcpscanner\<close> library hands back. The normalizer probes
  \<^verbatim>\<open>category\<close>, \<^verbatim>\<open>description\<close> and \<^verbatim>\<open>threat_names\<close> with \<^verbatim>\<open>hasattr\<close>, so these
  attributes are optional (\<open>None\<close>: the attribute is absent); \<^verbatim>\<open>summary\<close> is read only
  when \<^verbatim>\<open>description\<close> is absent, and is optional as well. \<^verbatim>\<open>finding.severity\<close> is
  read on every finding; what is probed is whether the severity object has a
  \<^verbatim>\<open>value\<close> attribute (\<open>Sev_enum v\<close>, an enum member whose value is \<open>v\<close>) or not
  (\<open>Sev_plain s\<close>, any other object, \<open>s\<close> being what \<^verbatim>\<open>str\<close> returns for it).
\<close>

datatype raw_severity = Sev_enum string | Sev_plain string

record raw_finding =
  rf_severity :: raw_severity
  rf_category :: "string option"
  rf_description :: "string option"
  rf_summary :: "string option"
  rf_threat_names :: "string list option"

record raw_analyzer_result =
  ra_is_safe :: "bool option"
  ra_findings :: "raw_finding list option"

record raw_tool_result =
  tool_name :: string
  tool_description :: string
  is_safe :: bool
  status :: string
  findings :: "raw_finding list"
  analyzer_results :: "(string \<times> raw_analyzer_result) list option"

text \<open>The serialisable dictionaries that \<^verbatim>\<open>_process_tool_results\<close> builds.\<close>

record finding =
  f_severity :: string
  f_category :: "string option"
  f_description :: string
  f_threat_names :: "string list"

record analyzer_summary =
  as_is_safe :: bool
  as_findings_count :: int

record tool_data =
  td_name :: string
  td_description :: string
  td_is_safe :: bool
  td_status :: string
  td_findings :: "finding list"
  td_analyzer_results :: "(string \<times> analyzer_summary) list"

text \<open>
  One entry of \<^verbatim>\<open>mcpServers\<close>: a dictionary read with \<^verbatim>\<open>.get\<close> and by index;
  \<open>None\<close> is a missing key.
\<close>

record server_config =
  sc_type :: "string option"
  sc_command :: "string option"
  sc_args :: "string list option"
  sc_env :: "(string \<times> string) list option"
  sc_url :: "string option"
  sc_headers :: "(string \<rightharpoonup> string) option"

text \<open>
  The per-server result dictionary. The four places that build one use different key
  sets, so the keys that are not always there are optional; \<^verbatim>\<open>status\<close>, \<^verbatim>\<open>tools\<close> and
  \<^verbatim>\<open>error\<close> are always present (\<^verbatim>\<open>error\<close> may hold \<^verbatim>\<open>None\<close>).
\<close>

record server_result =
  sr_server_type :: "string option"
  sr_command :: "string option"
  sr_args :: "string list option"
  sr_url :: "string option"
  sr_status :: string
  sr_tools :: "tool_data list"
  sr_error :: "string option"

text \<open>\<^verbatim>\<open>self.results["summary"]\<close>, with the seven keys that \<^verbatim>\<open>__init__\<close> creates.\<close>

record summary =
  total_servers :: int
  scanned_servers :: int
  failed_servers :: int
  total_tools :: int
  safe_tools :: int
  unsafe_tools :: int
  total_findings :: int

text \<open>
  \<^verbatim>\<open>self.results\<close>: the per-server dictionary, in insertion order, and the summary
  (the timestamp, the configuration path and the analyzer names are never touched by a
  scan and are left out).
\<close>

record results =
  servers :: "(string \<times> server_result) list"
  summary :: summary

definition init_summary :: summary where
  "init_summary =
     \<lparr>total_servers = 0, scanned_servers = 0, failed_servers = 0, total_tools = 0,
      safe_tools = 0, unsafe_tools = 0, total_findings = 0\<rparr>"

definition init_results :: results where
  "init_results = \<lparr>servers = [], summary = init_summary\<rparr>"

text \<open>The summary as the dictionary it is in the program: key to counter.\<close>

definition summary_dict :: "summary \<Rightarrow> (string \<rightharpoonup> int)" where
  "summary_dict s =
     [''total_servers'' \<mapsto> total_servers s,
      ''scanned_servers'' \<mapsto> scanned_servers s,
      ''failed_servers'' \<mapsto> failed_servers s,
      ''total_tools'' \<mapsto> total_tools s,
      ''safe_tools'' \<mapsto> safe_tools s,
      ''unsafe_tools'' \<mapsto> unsafe_tools s,
      ''total_findings'' \<mapsto> total_findings s]"

text \<open>
  The external scanner (\<^verbatim>\<open>self.scanner\<close>, with the analyzers of the run fixed): given
  the command, arguments and environment of a stdio server, or the URL and the bearer
  token of a remote one (\<open>None\<close>: \<^verbatim>\<open>auth=None\<close>), it returns the tool results or raises.
\<close>

record scanner =
  scan_stdio_server_tools ::
    "string \<Rightarrow> string list \<Rightarrow> (string \<times> string) list option \<Rightarrow> exn + raw_tool_result list"
  scan_remote_server_tools :: "string \<Rightarrow> string option \<Rightarrow> exn + raw_tool_result list"

section \<open>Result normalizer: \<^verbatim>\<open>_process_tool_results\<close>\<close>

text \<open>
  \<^verbatim>\<open>AttributeError\<close> of \<^verbatim>\<open>finding.summary\<close>, and \<^verbatim>\<open>KeyError\<close> of a missing
  configuration key (whose \<^verbatim>\<open>str\<close> is the quoted key). The text of the
  \<^verbatim>\<open>AttributeError\<close> names the class of the object, which is not known here.
\<close>

definition attribute_error :: "string \<Rightarrow> exn" where
  "attribute_error a = ''object has no attribute '' @ [CHR 0x27] @ a @ [CHR 0x27]"

definition key_error :: "string \<Rightarrow> exn" where
  "key_error k = [CHR 0x27] @ k @ [CHR 0x27]"

definition severity_text :: "raw_severity \<Rightarrow> string" where
  "severity_text sv = (case sv of Sev_enum v \<Rightarrow> v | Sev_plain s \<Rightarrow> s)"

text \<open>The dictionary appended for one finding (the body of the inner loop).\<close>

definition process_finding :: "raw_finding \<Rightarrow> exn + finding" where
  "process_finding fd =
     (case (case rf_description fd of
              Some d \<Rightarrow> Inr d
            | None \<Rightarrow> (case rf_summary fd of
                         Some s \<Rightarrow> Inr s
                       | None \<Rightarrow> Inl (attribute_error ''summary''))) of
        Inl e \<Rightarrow> Inl e
      | Inr d \<Rightarrow>
          Inr \<lparr>f_severity = severity_text (rf_severity fd),
               f_category = rf_category fd,
               f_description = d,
               f_threat_names = (case rf_threat_names fd of Some ts \<Rightarrow> ts | None \<Rightarrow> [])\<rparr>)"

fun process_findings :: "raw_finding list \<Rightarrow> exn + finding list" where
  "process_findings [] = Inr []"
| "process_findings (fd # fds) =
     (case process_finding fd of
        Inl e \<Rightarrow> Inl e
      | Inr g \<Rightarrow> (case process_findings fds of Inl e \<Rightarrow> Inl e | Inr gs \<Rightarrow> Inr (g # gs)))"

definition process_analyzer_result :: "raw_analyzer_result \<Rightarrow> analyzer_summary" where
  "process_analyzer_result ar =
     \<lparr>as_is_safe = (case ra_is_safe ar of Some b \<Rightarrow> b | None \<Rightarrow> True),
      as_findings_count = (case ra_findings ar of Some fs \<Rightarrow> int (length fs) | None \<Rightarrow> 0)\<rparr>"

definition process_tool_result :: "raw_tool_result \<Rightarrow> exn + tool_data" where
  "process_tool_result tr =
     (case process_findings (findings tr) of
        Inl e \<Rightarrow> Inl e
      | Inr fs \<Rightarrow>
          Inr \<lparr>td_name = tool_name tr,
               td_description = tool_description tr,
               td_is_safe = is_safe tr,
               td_status = status tr,
               td_findings = fs,
               td_analyzer_results =
                 (case analyzer_results tr of
                    None \<Rightarrow> []
                  | Some ars \<Rightarrow>
                      fold (\<lambda>(n, ar). AList.update n (process_analyzer_result ar)) ars [])\<rparr>)"

fun process_tool_results :: "raw_tool_result list \<Rightarrow> exn + tool_data list" where
  "process_tool_results [] = Inr []"
| "process_tool_results (tr # trs) =
     (case process_tool_result tr of
        Inl e \<Rightarrow> Inl e
      | Inr t \<Rightarrow> (case process_tool_results trs of Inl e \<Rightarrow> Inl e | Inr ts \<Rightarrow> Inr (t # ts)))"

section \<open>Transport strategies\<close>

text \<open>
  Python's \<^verbatim>\<open>str.replace(old, new)\<close>: every non-overlapping occurrence of \<open>old\<close>,
  found from the left, is replaced; an empty \<open>old\<close> matches before every character and
  at the end.
\<close>

fun str_replace :: "string \<Rightarrow> string \<Rightarrow> string \<Rightarrow> string" where
  "str_replace old new [] = (if old = [] then new else [])"
| "str_replace old new (c # cs) =
     (if old = [] then new @ c # str_replace old new cs
      else if prefix old (c # cs) then new @ str_replace old new (drop (length old) (c # cs))
      else c # str_replace old new cs)"

text \<open>
  The bearer token taken from the header map (\<open>None\<close>: \<^verbatim>\<open>auth\<close> stays \<^verbatim>\<open>None\<close>).
\<close>

definition bearer_auth :: "(string \<rightharpoonup> string) \<Rightarrow> string option" where
  "bearer_auth headers =
     (case headers ''Authorization'' of
        None \<Rightarrow> None
      | Some auth_header \<Rightarrow>
          if prefix ''Bearer '' auth_header
          then Some (str_replace ''Bearer '' [] auth_header)
          else None)"

text \<open>The \<^verbatim>\<open>try\<close> block of \<^verbatim>\<open>scan_stdio_server\<close>: the processed tools, or the exception.\<close>

definition scan_stdio_server_try :: "scanner \<Rightarrow> server_config \<Rightarrow> exn + tool_data list" where
  "scan_stdio_server_try sc server_config =
     (case sc_command server_config of
        None \<Rightarrow> Inl (key_error ''command'')
      | Some cmd \<Rightarrow>
          (case scan_stdio_server_tools sc cmd
                  (case sc_args server_config of Some a \<Rightarrow> a | None \<Rightarrow> [])
                  (sc_env server_config) of
             Inl e \<Rightarrow> Inl e
           | Inr tool_results \<Rightarrow> process_tool_results tool_results))"

definition scan_stdio_server :: "scanner \<Rightarrow> string \<Rightarrow> server_config \<Rightarrow> server_result" where
  "scan_stdio_server sc server_name server_config =
     (let result =
            \<lparr>sr_server_type = Some ''stdio'',
             sr_command = sc_command server_config,
             sr_args = Some (case sc_args server_config of Some a \<Rightarrow> a | None \<Rightarrow> []),
             sr_url = None,
             sr_status = ''pending'',
             sr_tools = [],
             sr_error = None\<rparr>
      in case scan_stdio_server_try sc server_config of
           Inr tools \<Rightarrow> result\<lparr>sr_status := ''completed'', sr_tools := tools\<rparr>
         | Inl e \<Rightarrow> result\<lparr>sr_status := ''failed'', sr_error := Some e\<rparr>)"

text \<open>The \<^verbatim>\<open>try\<close> block of \<^verbatim>\<open>scan_http_server\<close>.\<close>

definition scan_http_server_try :: "scanner \<Rightarrow> server_config \<Rightarrow> exn + tool_data list" where
  "scan_http_server_try sc server_config =
     (let auth = bearer_auth (case sc_headers server_config of Some h \<Rightarrow> h | None \<Rightarrow> Map.empty)
      in case sc_url server_config of
           None \<Rightarrow> Inl (key_error ''url'')
         | Some url \<Rightarrow>
             (case scan_remote_server_tools sc url auth of
                Inl e \<Rightarrow> Inl e
              | Inr tool_results \<Rightarrow> process_tool_results tool_results))"

definition scan_http_server :: "scanner \<Rightarrow> string \<Rightarrow> server_config \<Rightarrow> server_result" where
  "scan_http_server sc server_name server_config =
     (let result =
            \<lparr>sr_server_type = Some ''http'',
             sr_command = None,
             sr_args = None,
             sr_url = sc_url server_config,
             sr_status = ''pending'',
             sr_tools = [],
             sr_error = None\<rparr>
      in case scan_http_server_try sc server_config of
           Inr tools \<Rightarrow> result\<lparr>sr_status := ''completed'', sr_tools := tools\<rparr>
         | Inl e \<Rightarrow> result\<lparr>sr_status := ''failed'', sr_error := Some e\<rparr>)"

section \<open>Orchestrator and aggregation: \<^verbatim>\<open>scan_all_servers\<close>\<close>

text \<open>
  \<^verbatim>\<open>scan_all_servers\<close> calls the two strategies as methods inside its own \<^verbatim>\<open>try\<close>;
  the call either returns a result dictionary or raises. The orchestrator is modelled
  over any such pair of strategies; \<open>scanner_strategies\<close> is the pair the class defines.
\<close>

record strategies =
  stdio_strategy :: "string \<Rightarrow> server_config \<Rightarrow> exn + server_result"
  http_strategy :: "string \<Rightarrow> server_config \<Rightarrow> exn + server_result"

definition scanner_strategies :: "scanner \<Rightarrow> strategies" where
  "scanner_strategies sc =
     \<lparr>stdio_strategy = (\<lambda>n c. Inr (scan_stdio_server sc n c)),
      http_strategy = (\<lambda>n c. Inr (scan_http_server sc n c))\<rparr>"

definition skipped_result :: "string \<Rightarrow> server_result" where
  "skipped_result server_type =
     \<lparr>sr_server_type = Some server_type,
      sr_command = None,
      sr_args = None,
      sr_url = None,
      sr_status = ''skipped'',
      sr_tools = [],
      sr_error = Some (''Unsupported server type: '' @ server_type)\<rparr>"

definition error_result :: "exn \<Rightarrow> server_result" where
  "error_result e =
     \<lparr>sr_server_type = None,
      sr_command = None,
      sr_args = None,
      sr_url = None,
      sr_status = ''error'',
      sr_tools = [],
      sr_error = Some e\<rparr>"

text \<open>The \<^verbatim>\<open>if\<close>/\<^verbatim>\<open>elif\<close>/\<^verbatim>\<open>else\<close> on the server type.\<close>

definition dispatch :: "strategies \<Rightarrow> string \<Rightarrow> server_config \<Rightarrow> exn + server_result" where
  "dispatch S server_name server_config =
     (let server_type = (case sc_type server_config of Some t \<Rightarrow> t | None \<Rightarrow> ''unknown'')
      in if server_type = ''stdio'' then stdio_strategy S server_name server_config
         else if server_type = ''http'' then http_strategy S server_name server_config
         else Inr (skipped_result server_type))"

text \<open>The update of the summary statistics for one returned result.\<close>

definition update_summary :: "server_result \<Rightarrow> summary \<Rightarrow> summary" where
  "update_summary server_result s =
     (if sr_status server_result = ''completed'' then
        s\<lparr>scanned_servers := scanned_servers s + 1,
          total_tools := total_tools s + int (length (sr_tools server_result)),
          safe_tools := safe_tools s + (\<Sum>t\<leftarrow>filter td_is_safe (sr_tools server_result). 1),
          unsafe_tools := unsafe_tools s
             + (\<Sum>t\<leftarrow>filter (\<lambda>t. \<not> td_is_safe t) (sr_tools server_result). 1),
          total_findings := total_findings s
             + (\<Sum>t\<leftarrow>sr_tools server_result. int (length (td_findings t)))\<rparr>
      else if sr_status server_result = ''failed'' then
        s\<lparr>failed_servers := failed_servers s + 1\<rparr>
      else s)"

text \<open>The body of the loop, for one item of \<^verbatim>\<open>mcpServers\<close>.\<close>

definition scan_server :: "strategies \<Rightarrow> string \<times> server_config \<Rightarrow> results \<Rightarrow> results" where
  "scan_server S item st =
     (case dispatch S (fst item) (snd item) of
        Inr server_result \<Rightarrow>
          st\<lparr>servers := AList.update (fst item) server_result (servers st),
             summary := update_summary server_result (summary st)\<rparr>
      | Inl e \<Rightarrow>
          st\<lparr>servers := AList.update (fst item) (error_result e) (servers st),
             summary := (summary st)\<lparr>failed_servers := failed_servers (summary st) + 1\<rparr>\<rparr>)"

definition scan_all_servers ::
  "strategies \<Rightarrow> (string \<times> server_config) list \<Rightarrow> results \<Rightarrow> results" where
  "scan_all_servers S mcpServers st =
     fold (scan_server S) mcpServers
       (st\<lparr>summary := (summary st)\<lparr>total_servers := int (length mcpServers)\<rparr>\<rparr>)"

section \<open>Skills scanner: the exit code of \<^verbatim>\<open>main\<close>\<close>

text \<open>
  The report of the external \<^verbatim>\<open>skill_scanner\<close> library, reduced to the counters that
  \<^verbatim>\<open>main\<close> reads.
\<close>

record report =
  total_skills_scanned :: int
  safe_count :: int
  report_total_findings :: int
  critical_count :: int
  high_count :: int
  medium_count :: int
  low_count :: int
  info_count :: int



section \<open>Reading a run\<close>

text \<open>
  Two projections of the loop body \<open>scan_server\<close>, used to state what a run leaves
  behind: the result it stores for an item, and what it does to the summary.
\<close>

definition outcome :: "strategies \<Rightarrow> string \<times> server_config \<Rightarrow> server_result" where
  "outcome S item =
     (case dispatch S (fst item) (snd item) of Inr r \<Rightarrow> r | Inl e \<Rightarrow> error_result e)"

definition summary_step :: "strategies \<Rightarrow> string \<times> server_config \<Rightarrow> summary \<Rightarrow> summary" where
  "summary_step S item s =
     (case dispatch S (fst item) (snd item) of
        Inr r \<Rightarrow> update_summary r s
      | Inl e \<Rightarrow> s\<lparr>failed_servers := failed_servers s + 1\<rparr>)"

text \<open>
  A pair of strategies that, when they return (rather than raise), return a result
  whose status is \<^verbatim>\<open>completed\<close> or \<^verbatim>\<open>failed\<close>, as the two methods of the class do.
\<close>

definition returns_completed_or_failed :: "strategies \<Rightarrow> bool" where
  "returns_completed_or_failed S \<longleftrightarrow>
     (\<forall>n c r. stdio_strategy S n c = Inr r \<or> http_strategy S n c = Inr r \<longrightarrow>
        sr_status r = ''completed'' \<or> sr_status r = ''failed'')"



section \<open>Concrete runs\<close>

text \<open>
  The inputs of the concrete runs below. The scanner finds two tools on any stdio
  server it can start, one of them unsafe with a single HIGH finding, cannot start the
  command \<^verbatim>\<open>missing\<close>, and reaches no remote server.
\<close>

definition scenario_tools :: "raw_tool_result list" where
  "scenario_tools =
     [\<lparr>tool_name = ''run_shell'', tool_description = ''runs a command'', is_safe = False,
       status = ''completed'',
       findings = [\<lparr>rf_severity = Sev_plain ''HIGH'', rf_category = None, rf_description = None,
                     rf_summary = Some ''command injection'', rf_threat_names = None\<rparr>],
       analyzer_results = None\<rparr>,
      \<lparr>tool_name = ''read_file'', tool_description = ''reads a file'', is_safe = True,
       status = ''completed'', findings = [], analyzer_results = None\<rparr>]"

definition scenario_scanner :: scanner where
  "scenario_scanner =
     \<lparr>scan_stdio_server_tools =
        (\<lambda>cmd args env. if cmd = ''missing'' then Inl ''No such file or directory''
                         else Inr scenario_tools),
      scan_remote_server_tools = (\<lambda>url auth. Inl ''All connection attempts failed'')\<rparr>"

definition stdio_config :: "string \<Rightarrow> server_config" where
  "stdio_config cmd =
     \<lparr>sc_type = Some ''stdio'', sc_command = Some cmd, sc_args = None, sc_env = None,
      sc_url = None, sc_headers = None\<rparr>"

definition http_config :: "string \<Rightarrow> server_config" where
  "http_config url =
     \<lparr>sc_type = Some ''http'', sc_command = None, sc_args = None, sc_env = None,
      sc_url = Some url, sc_headers = None\<rparr>"


text \<open>One stdio server with two tools and one unreachable remote server.\<close>

definition scenario_config :: "(string \<times> server_config) list" where
  "scenario_config =
     [(''local'', stdio_config ''server''), (''remote'', http_config ''http://localhost:1'')]"

text \<open>A stdio server whose executable does not exist, followed by a valid one.\<close>

definition isolation_config :: "(string \<times> server_config) list" where
  "isolation_config = [(''broken'', stdio_config ''missing''), (''good'', stdio_config ''server'')]"


lemmas scenario_defs = scenario_tools_def scenario_scanner_def stdio_config_def http_config_def
  scenario_config_def isolation_config_def

lemmas run_defs = scan_all_servers_def scan_server_def dispatch_def scanner_strategies_def
  scan_stdio_server_def scan_http_server_def scan_stdio_server_try_def scan_http_server_try_def
  process_tool_result_def process_finding_def severity_text_def bearer_auth_def
  update_summary_def init_results_def init_summary_def Let_def

section \<open>The normalizer\<close>






section \<open>The bearer token\<close>

lemma bearer_auth_used_iff:
  "bearer_auth h \<noteq> None \<longleftrightarrow> (\<exists>v. h ''Authorization'' = Some v \<and> prefix ''Bearer '' v)"
  by (auto simp: bearer_auth_def split: option.splits)

lemma str_replace_no_occurrence:
  "old \<noteq> [] \<Longrightarrow> \<not> (\<exists>xs ys. s = xs @ old @ ys) \<Longrightarrow> str_replace old new s = s"
proof (induction s)
  case Nil
  then show ?case by simp
next
  case (Cons c cs)
  have np: "\<not> prefix old (c # cs)"
  proof
    assume "prefix old (c # cs)"
    then obtain ys where "c # cs = old @ ys" by (auto simp: prefix_def)
    then have "c # cs = [] @ old @ ys" by simp
    with Cons.prems(2) show False by blast
  qed
  have "\<not> (\<exists>xs ys. cs = xs @ old @ ys)"
  proof
    assume "\<exists>xs ys. cs = xs @ old @ ys"
    then obtain xs ys where "cs = xs @ old @ ys" by blast
    then have "c # cs = (c # xs) @ old @ ys" by simp
    with Cons.prems(2) show False by blast
  qed
  with Cons.IH Cons.prems(1) have "str_replace old new cs = cs" by blast
  with np Cons.prems(1) show ?case by simp
qed

text \<open>
  A token in which the text \<^verbatim>\<open>Bearer \<close> does not occur again is passed on unchanged.
\<close>

lemma bearer_auth_plain_token:
  "h ''Authorization'' = Some (''Bearer '' @ tok) \<Longrightarrow>
   \<not> (\<exists>xs ys. tok = xs @ ''Bearer '' @ ys) \<Longrightarrow> bearer_auth h = Some tok"
  using str_replace_no_occurrence [of "''Bearer ''" tok "[]"]
  by (simp add: bearer_auth_def)

text \<open>
  Claim C5. The token is obtained with \<^verbatim>\<open>replace\<close>, which removes every occurrence of
  \<^verbatim>\<open>Bearer \<close>, not only the prefix: for the header \<^verbatim>\<open>Bearer a Bearer b\<close> the scan gets
  the token \<^verbatim>\<open>a b\<close>, where the header with its prefix removed is \<^verbatim>\<open>a Bearer b\<close>.
\<close>

theorem bearer_token_replaced_everywhere:
  "bearer_auth [''Authorization'' \<mapsto> ''Bearer a Bearer b''] = Some ''a b''
   \<and> drop (length ''Bearer '') ''Bearer a Bearer b'' = ''a Bearer b''
   \<and> ''a b'' \<noteq> ''a Bearer b''"
  by (simp add: bearer_auth_def)

section \<open>The exit code of the skills scanner\<close>


section \<open>The aggregation fold\<close>

lemma update_summary_commute:
  "update_summary x (update_summary y s) = update_summary y (update_summary x s)"
  by (simp add: update_summary_def)

text \<open>
  Claim C7. Folding the same results, each exactly once, in any order gives the same
  summary: two lists with the same multiset of results are permutations of each other.
\<close>

theorem aggregation_permutation_invariant:
  "mset rs = mset rs' \<Longrightarrow> fold update_summary rs s = fold update_summary rs' s"
proof -
  assume a: "mset rs = mset rs'"
  have "fold update_summary rs = fold update_summary rs'"
    by (rule fold_multiset_equiv [OF _ a]) (auto simp: fun_eq_iff update_summary_commute)
  then show ?thesis by simp
qed

theorem aggregation_permutation_invariant_witness:
  "mset [scan_stdio_server scenario_scanner ''local'' (stdio_config ''server''),
         scan_http_server scenario_scanner ''remote'' (http_config ''http://localhost:1'')]
     = mset [scan_http_server scenario_scanner ''remote'' (http_config ''http://localhost:1''),
             scan_stdio_server scenario_scanner ''local'' (stdio_config ''server'')]
   \<and> fold update_summary
        [scan_stdio_server scenario_scanner ''local'' (stdio_config ''server''),
         scan_http_server scenario_scanner ''remote'' (http_config ''http://localhost:1'')]
        init_summary
     = fold update_summary
        [scan_http_server scenario_scanner ''remote'' (http_config ''http://localhost:1''),
         scan_stdio_server scenario_scanner ''local'' (stdio_config ''server'')]
        init_summary"
proof -
  have h: "mset [scan_stdio_server scenario_scanner ''local'' (stdio_config ''server''),
         scan_http_server scenario_scanner ''remote'' (http_config ''http://localhost:1'')]
     = mset [scan_http_server scenario_scanner ''remote'' (http_config ''http://localhost:1''),
             scan_stdio_server scenario_scanner ''local'' (stdio_config ''server'')]"
    by (simp add: add_mset_commute)
  from aggregation_permutation_invariant [OF h, of init_summary] h show ?thesis
    by blast
qed

section \<open>One pass of the loop\<close>



section \<open>A whole run\<close>

lemma scan_server_servers:
  "servers (scan_server S item st) = AList.update (fst item) (outcome S item) (servers st)"
  by (simp add: scan_server_def outcome_def split: sum.splits)

lemma scan_server_summary:
  "summary (scan_server S item st) = summary_step S item (summary st)"
  by (simp add: scan_server_def summary_step_def split: sum.splits)

lemma fold_scan_server_servers:
  "servers (fold (scan_server S) cfg st) =
     fold (\<lambda>item. AList.update (fst item) (outcome S item)) cfg (servers st)"
  by (induction cfg arbitrary: st) (simp_all add: scan_server_servers)

lemma fold_scan_server_summary:
  "summary (fold (scan_server S) cfg st) = fold (summary_step S) cfg (summary st)"
  by (induction cfg arbitrary: st) (simp_all add: scan_server_summary)

lemma update_fresh: "k \<notin> fst ` set al \<Longrightarrow> AList.update k v al = al @ [(k, v)]"
  by (induction al) auto

lemma fold_update_fresh:
  "distinct (map fst cfg) \<Longrightarrow> fst ` set cfg \<inter> fst ` set acc = {} \<Longrightarrow>
   fold (\<lambda>item. AList.update (fst item) (f item)) cfg acc
     = acc @ map (\<lambda>item. (fst item, f item)) cfg"
proof (induction cfg arbitrary: acc)
  case Nil
  then show ?case by simp
next
  case (Cons it cfg)
  from Cons.prems have fresh: "fst it \<notin> fst ` set acc" by auto
  from Cons.prems have d: "distinct (map fst cfg)" by simp
  from Cons.prems have "fst ` set cfg \<inter> fst ` set (acc @ [(fst it, f it)]) = {}"
    by (auto simp: image_iff)
  from Cons.IH [OF d this] fresh show ?case
    by (simp add: update_fresh)
qed

text \<open>
  With distinct server names, as the keys of a dictionary are, a run from the initial
  state stores one result per server, in configuration order.
\<close>

lemma servers_scan_all_servers:
  assumes "distinct (map fst cfg)"
  shows "servers (scan_all_servers S cfg init_results)
           = map (\<lambda>item. (fst item, outcome S item)) cfg"
  using fold_update_fresh [OF assms, of "[]" "outcome S"]
  by (simp add: scan_all_servers_def fold_scan_server_servers init_results_def)

lemma summary_scan_all_servers:
  "summary (scan_all_servers S cfg init_results)
     = fold (summary_step S) cfg (init_summary\<lparr>total_servers := int (length cfg)\<rparr>)"
  by (simp add: scan_all_servers_def fold_scan_server_summary init_results_def)



subsection \<open>The counters\<close>

lemma total_servers_step [simp]: "total_servers (summary_step S item s) = total_servers s"
  by (simp add: summary_step_def update_summary_def split: sum.splits)

lemma total_servers_fold: "total_servers (fold (summary_step S) cfg s) = total_servers s"
  by (induction cfg arbitrary: s) simp_all

lemma sum_list_ones: "(\<Sum>t\<leftarrow>xs. (1::int)) = int (length xs)"
  by (induction xs) simp_all

lemma safe_unsafe_update:
  assumes "safe_tools s + unsafe_tools s = total_tools s"
  shows "safe_tools (update_summary r s) + unsafe_tools (update_summary r s)
           = total_tools (update_summary r s)"
proof -
  have "int (length (filter td_is_safe (sr_tools r)))
          + int (length (filter (\<lambda>t. \<not> td_is_safe t) (sr_tools r)))
        = int (length (sr_tools r))"
    using sum_length_filter_compl [of td_is_safe "sr_tools r"] by linarith
  with assms show ?thesis
    by (simp add: update_summary_def sum_list_ones)
qed

lemma safe_unsafe_step:
  "safe_tools s + unsafe_tools s = total_tools s \<Longrightarrow>
   safe_tools (summary_step S item s) + unsafe_tools (summary_step S item s)
     = total_tools (summary_step S item s)"
  by (cases "dispatch S (fst item) (snd item)") (simp_all add: summary_step_def safe_unsafe_update)

lemma safe_unsafe_fold:
  "safe_tools s + unsafe_tools s = total_tools s \<Longrightarrow>
   safe_tools (fold (summary_step S) cfg s) + unsafe_tools (fold (summary_step S) cfg s)
     = total_tools (fold (summary_step S) cfg s)"
  by (induction cfg arbitrary: s) (simp_all add: safe_unsafe_step)

lemma total_tools_step:
  "total_tools (summary_step S item s) = total_tools s +
     (if sr_status (outcome S item) = ''completed''
      then int (length (sr_tools (outcome S item))) else 0)"
  by (auto simp: summary_step_def outcome_def update_summary_def error_result_def
      split: sum.splits)

lemma scanned_step:
  "scanned_servers (summary_step S item s) = scanned_servers s +
     (if sr_status (outcome S item) = ''completed'' then 1 else 0)"
  by (auto simp: summary_step_def outcome_def update_summary_def error_result_def
      split: sum.splits)

lemma dispatch_status:
  "returns_completed_or_failed S \<Longrightarrow> dispatch S n c = Inr r \<Longrightarrow>
     sr_status r = ''completed'' \<or> sr_status r = ''failed'' \<or> sr_status r = ''skipped''"
  unfolding returns_completed_or_failed_def dispatch_def Let_def
  by (auto simp: skipped_result_def split: if_splits)

lemma failed_step:
  assumes "returns_completed_or_failed S"
  shows "failed_servers (summary_step S item s) = failed_servers s +
     (if sr_status (outcome S item) = ''failed'' \<or> sr_status (outcome S item) = ''error''
      then 1 else 0)"
proof (cases "dispatch S (fst item) (snd item)")
  case (Inl e)
  then show ?thesis by (simp add: summary_step_def outcome_def error_result_def)
next
  case (Inr r)
  from dispatch_status [OF assms Inr] Inr show ?thesis
    by (auto simp: summary_step_def outcome_def update_summary_def)
qed

lemma outcome_status:
  assumes "returns_completed_or_failed S"
  shows "sr_status (outcome S item) \<in> {''completed'', ''failed'', ''skipped'', ''error''}"
proof (cases "dispatch S (fst item) (snd item)")
  case (Inl e)
  then show ?thesis by (simp add: outcome_def error_result_def)
next
  case (Inr r)
  from dispatch_status [OF assms Inr] Inr show ?thesis
    by (auto simp: outcome_def)
qed

lemma total_tools_fold:
  "total_tools (fold (summary_step S) cfg s) = total_tools s +
     (\<Sum>item\<leftarrow>filter (\<lambda>item. sr_status (outcome S item) = ''completed'') cfg.
         int (length (sr_tools (outcome S item))))"
  by (induction cfg arbitrary: s) (simp_all add: total_tools_step)

lemma scanned_fold:
  "scanned_servers (fold (summary_step S) cfg s) = scanned_servers s +
     int (length (filter (\<lambda>item. sr_status (outcome S item) = ''completed'') cfg))"
  by (induction cfg arbitrary: s) (simp_all add: scanned_step)

lemma failed_fold:
  "returns_completed_or_failed S \<Longrightarrow>
   failed_servers (fold (summary_step S) cfg s) = failed_servers s +
     int (length (filter (\<lambda>item. sr_status (outcome S item) = ''failed''
                              \<or> sr_status (outcome S item) = ''error'') cfg))"
  by (induction cfg arbitrary: s) (simp_all add: failed_step)

lemma status_partition:
  assumes "returns_completed_or_failed S"
  shows "length (filter (\<lambda>item. sr_status (outcome S item) = ''completed'') cfg)
       + length (filter (\<lambda>item. sr_status (outcome S item) = ''failed''
                              \<or> sr_status (outcome S item) = ''error'') cfg)
       + length (filter (\<lambda>item. sr_status (outcome S item) = ''skipped'') cfg)
       = length cfg"
proof (induction cfg)
  case Nil
  then show ?case by simp
next
  case (Cons it cfg)
  from outcome_status [OF assms, of it] Cons show ?case by auto
qed

lemma scanner_strategies_terminal: "returns_completed_or_failed (scanner_strategies sc)"
  by (auto simp: returns_completed_or_failed_def scanner_strategies_def scan_stdio_server_def
      scan_http_server_def Let_def split: sum.splits)


lemma run_counters:
  assumes "distinct (map fst cfg)"
  shows "let st = scan_all_servers S cfg init_results; s = summary st in
           total_servers s = int (length cfg)
         \<and> safe_tools s + unsafe_tools s = total_tools s
         \<and> total_tools s =
             (\<Sum>entry\<leftarrow>filter (\<lambda>entry. sr_status (snd entry) = ''completed'') (servers st).
                 int (length (sr_tools (snd entry))))
         \<and> scanned_servers s =
             int (length (filter (\<lambda>entry. sr_status (snd entry) = ''completed'') (servers st)))"
proof -
  let ?s0 = "init_summary\<lparr>total_servers := int (length cfg)\<rparr>"
  have sv: "servers (scan_all_servers S cfg init_results)
              = map (\<lambda>item. (fst item, outcome S item)) cfg"
    by (rule servers_scan_all_servers [OF assms])
  have sm: "summary (scan_all_servers S cfg init_results) = fold (summary_step S) cfg ?s0"
    by (rule summary_scan_all_servers)
  have 1: "total_servers (fold (summary_step S) cfg ?s0) = int (length cfg)"
    by (simp add: total_servers_fold)
  have 2: "safe_tools (fold (summary_step S) cfg ?s0) + unsafe_tools (fold (summary_step S) cfg ?s0)
             = total_tools (fold (summary_step S) cfg ?s0)"
    by (rule safe_unsafe_fold) (simp add: init_summary_def)
  have 3: "total_tools (fold (summary_step S) cfg ?s0) =
             (\<Sum>entry\<leftarrow>filter (\<lambda>entry. sr_status (snd entry) = ''completed'')
                        (map (\<lambda>item. (fst item, outcome S item)) cfg).
                 int (length (sr_tools (snd entry))))"
    by (simp add: total_tools_fold filter_map comp_def init_summary_def)
  have 4: "scanned_servers (fold (summary_step S) cfg ?s0) =
             int (length (filter (\<lambda>entry. sr_status (snd entry) = ''completed'')
                        (map (\<lambda>item. (fst item, outcome S item)) cfg)))"
    by (simp add: scanned_fold filter_map comp_def init_summary_def)
  from 1 2 3 4 show ?thesis
    unfolding Let_def sv sm by blast
qed

lemma run_failed_skipped:
  assumes "distinct (map fst cfg)" and "returns_completed_or_failed S"
  shows "let st = scan_all_servers S cfg init_results; s = summary st in
           failed_servers s =
             int (length (filter (\<lambda>entry. sr_status (snd entry) = ''failed''
                                      \<or> sr_status (snd entry) = ''error'') (servers st)))
         \<and> scanned_servers s + failed_servers s
             + int (length (filter (\<lambda>entry. sr_status (snd entry) = ''skipped'') (servers st)))
             = int (length cfg)"
proof -
  let ?s0 = "init_summary\<lparr>total_servers := int (length cfg)\<rparr>"
  let ?out = "map (\<lambda>item. (fst item, outcome S item)) cfg"
  have sv: "servers (scan_all_servers S cfg init_results) = ?out"
    by (rule servers_scan_all_servers [OF assms(1)])
  have sm: "summary (scan_all_servers S cfg init_results) = fold (summary_step S) cfg ?s0"
    by (rule summary_scan_all_servers)
  have f: "failed_servers (fold (summary_step S) cfg ?s0) =
             int (length (filter (\<lambda>entry. sr_status (snd entry) = ''failed''
                                      \<or> sr_status (snd entry) = ''error'') ?out))"
    by (simp add: failed_fold [OF assms(2)] filter_map comp_def init_summary_def)
  have p: "scanned_servers (fold (summary_step S) cfg ?s0)
             + failed_servers (fold (summary_step S) cfg ?s0)
             + int (length (filter (\<lambda>entry. sr_status (snd entry) = ''skipped'') ?out))
             = int (length cfg)"
  proof -
    have "int (length (filter (\<lambda>item. sr_status (outcome S item) = ''completed'') cfg)
       + length (filter (\<lambda>item. sr_status (outcome S item) = ''failed''
                              \<or> sr_status (outcome S item) = ''error'') cfg)
       + length (filter (\<lambda>item. sr_status (outcome S item) = ''skipped'') cfg))
       = int (length cfg)"
      using status_partition [OF assms(2), of cfg] by simp
    then show ?thesis
      by (simp add: failed_fold [OF assms(2)] scanned_fold filter_map comp_def init_summary_def)
  qed
  from f p show ?thesis
    unfolding Let_def sv sm by blast
qed

text \<open>
  Claim C4. After a run over \<open>N\<close> servers with distinct names: \<open>total_servers\<close> is
  \<open>N\<close>; safe and unsafe tools add up to \<open>total_tools\<close>; \<open>total_tools\<close> is the number of
  tools over the recorded results whose status is \<^verbatim>\<open>completed\<close>; scanned, failed and
  skipped servers add up to \<open>N\<close>, so scanned plus failed is at most \<open>total_servers\<close>.
\<close>

theorem summary_invariants:
  assumes "distinct (map fst cfg)"
  shows "let st = scan_all_servers (scanner_strategies sc) cfg init_results; s = summary st in
           total_servers s = int (length cfg)
         \<and> safe_tools s + unsafe_tools s = total_tools s
         \<and> total_tools s =
             (\<Sum>entry\<leftarrow>filter (\<lambda>entry. sr_status (snd entry) = ''completed'') (servers st).
                 int (length (sr_tools (snd entry))))
         \<and> scanned_servers s + failed_servers s
             + int (length (filter (\<lambda>entry. sr_status (snd entry) = ''skipped'') (servers st)))
             = int (length cfg)
         \<and> scanned_servers s + failed_servers s \<le> total_servers s"
  using run_counters [OF assms, of "scanner_strategies sc"]
    run_failed_skipped [OF assms scanner_strategies_terminal, of sc]
  unfolding Let_def by linarith

lemma scenario_summary:
  "summary (scan_all_servers (scanner_strategies scenario_scanner) scenario_config init_results)
     = \<lparr>total_servers = 2, scanned_servers = 1, failed_servers = 1, total_tools = 2,
        safe_tools = 1, unsafe_tools = 1, total_findings = 1\<rparr>"
  by (simp add: scenario_defs run_defs)

theorem summary_invariants_witness:
  "let st = scan_all_servers (scanner_strategies scenario_scanner) scenario_config init_results;
       s = summary st in
     distinct (map fst scenario_config)
     \<and> total_servers s = 2
     \<and> safe_tools s + unsafe_tools s = total_tools s
     \<and> total_tools s = 2
     \<and> scanned_servers s + failed_servers s \<le> total_servers s"
  using summary_invariants [of scenario_config scenario_scanner] scenario_summary
  by (simp add: scenario_config_def Let_def)

subsection \<open>The severity histogram\<close>

text \<open>
  Claim C3, as stated, fails: the summary has no severity histogram. After the
  end-to-end scenario, whose only finding is HIGH, the summary dictionary has no
  \<^verbatim>\<open>high_count\<close> entry.
\<close>

theorem severity_histogram_counterexample:
  "summary_dict
     (summary (scan_all_servers (scanner_strategies scenario_scanner) scenario_config init_results))
     ''high_count'' = None"
  by (simp add: summary_dict_def)

text \<open>
  Claim C3, amended. The summary consists of seven counters, none of them per
  severity. Folding a completed result adds the number of findings of each of its
  tools to \<open>total_findings\<close>, and the fold does not look at severities: changing
  them in any way changes nothing. In the end-to-end scenario the summary counts two
  servers, one scanned and one failed, two tools, one safe and one unsafe, and one
  finding.
\<close>

theorem summary_counts_findings_only:
  "dom (summary_dict s) = {''total_servers'', ''scanned_servers'', ''failed_servers'',
        ''total_tools'', ''safe_tools'', ''unsafe_tools'', ''total_findings''}
   \<and> total_findings (update_summary r s) = total_findings s +
        (if sr_status r = ''completed''
         then (\<Sum>t\<leftarrow>sr_tools r. int (length (td_findings t))) else 0)
   \<and> update_summary
        (r\<lparr>sr_tools :=
             map (\<lambda>t. t\<lparr>td_findings := map (\<lambda>f. f\<lparr>f_severity := sev f\<rparr>) (td_findings t)\<rparr>)
               (sr_tools r)\<rparr>) s
       = update_summary r s
   \<and> summary (scan_all_servers (scanner_strategies scenario_scanner) scenario_config init_results)
       = \<lparr>total_servers = 2, scanned_servers = 1, failed_servers = 1, total_tools = 2,
          safe_tools = 1, unsafe_tools = 1, total_findings = 1\<rparr>"
proof -
  have 1: "dom (summary_dict s) = {''total_servers'', ''scanned_servers'', ''failed_servers'',
        ''total_tools'', ''safe_tools'', ''unsafe_tools'', ''total_findings''}"
    by (auto simp: summary_dict_def)
  have 2: "total_findings (update_summary r s) = total_findings s +
        (if sr_status r = ''completed''
         then (\<Sum>t\<leftarrow>sr_tools r. int (length (td_findings t))) else 0)"
    by (simp add: update_summary_def)
  have 3: "update_summary
        (r\<lparr>sr_tools :=
             map (\<lambda>t. t\<lparr>td_findings := map (\<lambda>f. f\<lparr>f_severity := sev f\<rparr>) (td_findings t)\<rparr>)
               (sr_tools r)\<rparr>) s
       = update_summary r s"
    by (simp add: update_summary_def filter_map comp_def sum_list_ones)
  from 1 2 3 scenario_summary show ?thesis by blast
qed

subsection \<open>Failure isolation\<close>







subsection \<open>The status \<^verbatim>\<open>error\<close>\<close>



end
